theory Spec2Isabelle
  imports Complex_Main
begin

section \<open>Python strings\<close>

text \<open>
  The training module \<^verbatim>\<open>backend/train_model.py\<close> works on Python \<^verbatim>\<open>str\<close> values.
  They are modelled as HOL strings holding ASCII text: case conversion and the
  classification of whitespace follow Python on the code points below 128, every other
  character is left alone by \<open>str_lower\<close> and \<open>str_upper\<close> and is no whitespace.
\<close>

definition lower_char :: "char \<Rightarrow> char" where
  "lower_char c =
     (case map_of (zip ''ABCDEFGHIJKLMNOPQRSTUVWXYZ'' ''abcdefghijklmnopqrstuvwxyz'') c of
        Some d \<Rightarrow> d
      | None \<Rightarrow> c)"

definition upper_char :: "char \<Rightarrow> char" where
  "upper_char c =
     (case map_of (zip ''abcdefghijklmnopqrstuvwxyz'' ''ABCDEFGHIJKLMNOPQRSTUVWXYZ'') c of
        Some d \<Rightarrow> d
      | None \<Rightarrow> c)"

definition str_lower :: "string \<Rightarrow> string" where
  "str_lower s = map lower_char s"

definition str_upper :: "string \<Rightarrow> string" where
  "str_upper s = map upper_char s"

text \<open>\<^verbatim>\<open>str.isspace\<close> on one character; the regular expression class \<^verbatim>\<open>\s\<close> is the same set.\<close>

definition isspace :: "char \<Rightarrow> bool" where
  "isspace c =
     (c \<in> set [CHR 0x09, CHR 0x0A, CHR 0x0B, CHR 0x0C, CHR 0x0D,
               CHR 0x1C, CHR 0x1D, CHR 0x1E, CHR 0x1F, CHR 0x20])"

definition isdigit :: "char \<Rightarrow> bool" where
  "isdigit c = (c \<in> set ''0123456789'')"

text \<open>The character class \<^verbatim>\<open>[a-zA-Z0-9]\<close>.\<close>

definition is_alnum :: "char \<Rightarrow> bool" where
  "is_alnum c =
     (c \<in> set ''abcdefghijklmnopqrstuvwxyzABCDEFGHIJKLMNOPQRSTUVWXYZ0123456789'')"

text \<open>The character class \<^verbatim>\<open>[0-9.]\<close>.\<close>

definition is_numch :: "char \<Rightarrow> bool" where
  "is_numch c = (isdigit c \<or> c = CHR ''.'')"

text \<open>The character class \<^verbatim>\<open>["']\<close>.\<close>

definition is_quote :: "char \<Rightarrow> bool" where
  "is_quote c = (c = CHR 0x22 \<or> c = CHR 0x27)"

definition startswith :: "string \<Rightarrow> string \<Rightarrow> bool" where
  "startswith s p = (take (length p) s = p)"

definition endswith :: "string \<Rightarrow> string \<Rightarrow> bool" where
  "endswith s p = startswith (rev s) (rev p)"

text \<open>\<^verbatim>\<open>sub in s\<close>: the substring test, scanning the start positions from the left.\<close>

fun py_in :: "string \<Rightarrow> string \<Rightarrow> bool" where
  "py_in sub [] = (sub = [])"
| "py_in sub (c # cs) = (startswith (c # cs) sub \<or> py_in sub cs)"

text \<open>
  \<^verbatim>\<open>s.count(sub)\<close>: the number of non-overlapping occurrences, from the left. The counter
  \<open>k\<close> is the number of characters of the last occurrence that are still to be skipped.
\<close>

fun count_from :: "string \<Rightarrow> nat \<Rightarrow> string \<Rightarrow> nat" where
  "count_from sub k [] = 0"
| "count_from sub k (c # cs) =
     (if 0 < k then count_from sub (k - 1) cs
      else if startswith (c # cs) sub then 1 + count_from sub (length sub - 1) cs
      else count_from sub 0 cs)"

definition str_count :: "string \<Rightarrow> string \<Rightarrow> nat" where
  "str_count s sub = (if sub = [] then length s + 1 else count_from sub 0 s)"

text \<open>\<^verbatim>\<open>s.split()\<close>: the maximal runs of characters that are no whitespace.\<close>

fun split_from :: "string \<Rightarrow> string \<Rightarrow> string list" where
  "split_from w [] = (if w = [] then [] else [w])"
| "split_from w (c # cs) =
     (if isspace c then (if w = [] then split_from [] cs else w # split_from [] cs)
      else split_from (w @ [c]) cs)"

definition str_split :: "string \<Rightarrow> string list" where
  "str_split s = split_from [] s"

definition str_strip :: "string \<Rightarrow> string" where
  "str_strip s = rev (dropWhile isspace (rev (dropWhile isspace s)))"

text \<open>\<^verbatim>\<open>str(v)\<close> of a table cell: the text itself, and \<^verbatim>\<open>'nan'\<close> for a missing value.\<close>

definition py_str :: "string option \<Rightarrow> string" where
  "py_str v = (case v of Some s \<Rightarrow> s | None \<Rightarrow> ''nan'')"

text \<open>\<^verbatim>\<open>1 if b else 0\<close>\<close>

definition flag :: "bool \<Rightarrow> int" where
  "flag b = (if b then 1 else 0)"

section \<open>Errors\<close>

datatype error = ValueError string | KeyError string

text \<open>
  \<^verbatim>\<open>float(s)\<close> raises \<^verbatim>\<open>ValueError\<close> unless \<open>s\<close> is a decimal numeral. The model is
  exact on the strings that the patterns of \<open>extract_everything\<close> capture (digits and
  dots), the only ones it is applied to: such a string is a numeral when it has at most
  one dot and at least one digit. The value is the decimal value of the numeral, of
  which Python keeps the nearest double.
\<close>

definition digit_val :: "char \<Rightarrow> nat" where
  "digit_val c =
     (case map_of (zip ''0123456789'' [0, 1, 2, 3, 4, 5, 6, 7, 8, 9]) c of
        Some d \<Rightarrow> d
      | None \<Rightarrow> 0)"

definition digits_val :: "string \<Rightarrow> nat" where
  "digits_val s = foldl (\<lambda>a c. 10 * a + digit_val c) 0 s"

definition py_float :: "string \<Rightarrow> error + rat" where
  "py_float s =
     (let ip = takeWhile isdigit s; rest = dropWhile isdigit s in
      case rest of
        [] \<Rightarrow> if ip = [] then Inl (ValueError s) else Inr (of_nat (digits_val ip))
      | c # fp \<Rightarrow>
          if c = CHR ''.'' \<and> list_all isdigit fp \<and> (ip \<noteq> [] \<or> fp \<noteq> [])
          then Inr (of_nat (digits_val ip) + of_nat (digits_val fp) / 10 ^ length fp)
          else Inl (ValueError s))"

section \<open>Regular expressions of the extractor\<close>

text \<open>
  \<^verbatim>\<open>re.search\<close> tries the start positions from the left, the end of the string
  included, and returns the first match; \<open>m\<close> is the pattern anchored at the start of its
  argument, returning group 1.
\<close>

fun re_search :: "(string \<Rightarrow> 'a option) \<Rightarrow> string \<Rightarrow> 'a option" where
  "re_search m [] = m []"
| "re_search m (c # cs) = (case m (c # cs) of Some g \<Rightarrow> Some g | None \<Rightarrow> re_search m cs)"

text \<open>\<^verbatim>\<open><([a-zA-Z0-9]+)\<close>\<close>

definition tag_pat :: "string \<Rightarrow> string option" where
  "tag_pat s =
     (case s of
        [] \<Rightarrow> None
      | c # r \<Rightarrow>
          if c = CHR ''<'' \<and> takeWhile is_alnum r \<noteq> [] then Some (takeWhile is_alnum r)
          else None)"

text \<open>
  \<^verbatim>\<open>alt=["'](.*?)["']\<close>: the lazy group ends at the first quote character, of either
  kind; the dot matches no newline, so a newline before that quote fails the match at
  this start position.
\<close>

definition alt_pat :: "string \<Rightarrow> string option" where
  "alt_pat s =
     (if startswith s ''alt='' then
        (case drop 4 s of
           [] \<Rightarrow> None
         | q # r \<Rightarrow>
             if is_quote q then
               (let g = takeWhile (\<lambda>c. \<not> is_quote c \<and> c \<noteq> CHR 0x0A) r in
                case drop (length g) r of
                  [] \<Rightarrow> None
                | e # _ \<Rightarrow> if is_quote e then Some g else None)
             else None)
      else None)"

text \<open>\<^verbatim>\<open>contrastratio':\s*([0-9.]+)\<close>\<close>

definition cr_pat :: "string \<Rightarrow> string option" where
  "cr_pat s =
     (if startswith s ''contrastratio':'' then
        (let g = takeWhile is_numch (dropWhile isspace (drop 15 s)) in
         if g = [] then None else Some g)
      else None)"

text \<open>\<^verbatim>\<open>fontsize':\s*['"]([0-9.]+)\<close>\<close>

definition fs_pat :: "string \<Rightarrow> string option" where
  "fs_pat s =
     (if startswith s ''fontsize':'' then
        (case dropWhile isspace (drop 10 s) of
           [] \<Rightarrow> None
         | q # r \<Rightarrow>
             if is_quote q \<and> takeWhile is_numch r \<noteq> [] then Some (takeWhile is_numch r)
             else None)
      else None)"

text \<open>
  \<^verbatim>\<open>\.(jpg|png|gif|jpeg|svg|webp)$\<close>: the dollar matches at the end of the string and
  before a newline that ends it.
\<close>

definition filename_pat :: "string \<Rightarrow> bool" where
  "filename_pat s =
     list_ex (\<lambda>e. endswith s e \<or> endswith s (e @ [CHR 0x0A]))
       [''.jpg'', ''.png'', ''.gif'', ''.jpeg'', ''.svg'', ''.webp'']"

text \<open>\<^verbatim>\<open>(image of|photo of|picture of|link to|click here|button|graphic of)\<close>\<close>

definition redundant_pat :: "string \<Rightarrow> bool" where
  "redundant_pat s =
     list_ex (\<lambda>p. py_in p s)
       [''image of'', ''photo of'', ''picture of'', ''link to'', ''click here'', ''button'',
        ''graphic of'']"

definition placeholder_set :: "string set" where
  "placeholder_set =
     {''alt'', ''description'', ''label'', ''placeholder'', ''none'', ''image'', ''spacer'',
      ''icon'', ''dot''}"

section \<open>\<open>AccessibilityFeatureExtractor.extract_everything\<close>\<close>

record row =
  affected_html_elements :: "string option"
  supplementary_information :: "string option"
  violation_name :: "string option"
  wcag_reference :: "string option"

text \<open>The returned series; \<open>None\<close> in the two float fields is \<^verbatim>\<open>np.nan\<close>.\<close>

record features =
  html_tag :: string
  snippet_len :: int
  snippet_word_count :: int
  tag_count :: int
  word_count :: int
  is_button_or_link :: int
  has_id :: int
  has_class :: int
  has_role_attr :: int
  has_tabindex :: int
  is_img_or_svg :: int
  has_alt_attr :: int
  is_alt_empty :: int
  alt_word_count :: int
  alt_is_generic :: int
  alt_is_filename :: int
  has_redundant_prefix :: int
  is_aria_hidden :: int
  has_aria_label :: int
  contrast_ratio :: "rat option"
  font_size :: "rat option"
  is_aria_related :: int
  aria_density :: int
  supp_info_len :: int
  wcag_level :: int

text \<open>\<^verbatim>\<open>tag_match.group(1) if tag_match else 'unknown'\<close>\<close>

definition tag_of :: "string \<Rightarrow> string" where
  "tag_of html = (case re_search tag_pat html of Some g \<Rightarrow> g | None \<Rightarrow> ''unknown'')"

text \<open>\<^verbatim>\<open>alt_match.group(1).strip() if alt_match else ""\<close>\<close>

definition alt_content_of :: "string \<Rightarrow> string" where
  "alt_content_of html = (case re_search alt_pat html of Some g \<Rightarrow> str_strip g | None \<Rightarrow> [])"

text \<open>\<^verbatim>\<open>3 if 'AAA' in wcag else (2 if 'AA' in wcag else (1 if 'A' in wcag else 0))\<close>\<close>

definition wcag_level_of :: "string \<Rightarrow> int" where
  "wcag_level_of wcag =
     (if py_in ''AAA'' wcag then 3
      else if py_in ''AA'' wcag then 2
      else if py_in ''A'' wcag then 1
      else 0)"

text \<open>\<^verbatim>\<open>float(m.group(1)) if m else np.nan\<close>\<close>

definition float_or_nan :: "string option \<Rightarrow> error + rat option" where
  "float_or_nan m =
     (case m of
        None \<Rightarrow> Inr None
      | Some g \<Rightarrow> (case py_float g of Inl e \<Rightarrow> Inl e | Inr v \<Rightarrow> Inr (Some v)))"

text \<open>
  The entries of the returned series are evaluated in the order written, so the first
  conversion that can raise is that of the contrast ratio, the second that of the font
  size.
\<close>

definition extract_everything :: "row \<Rightarrow> error + features" where
  "extract_everything r =
     (let html = str_lower (py_str (affected_html_elements r));
          supp = str_lower (py_str (supplementary_information r));
          v_name = str_lower (py_str (violation_name r));
          wcag = str_upper (py_str (wcag_reference r));
          tag = tag_of html;
          alt_content = alt_content_of html;
          cr_match = re_search cr_pat supp;
          fs_match = re_search fs_pat supp
      in case float_or_nan cr_match of
           Inl e \<Rightarrow> Inl e
         | Inr cr \<Rightarrow>
            (case float_or_nan fs_match of
               Inl e \<Rightarrow> Inl e
             | Inr fs \<Rightarrow>
                 Inr \<lparr> html_tag = tag,
                       snippet_len = int (length html),
                       snippet_word_count = int (length (str_split html)),
                       tag_count = int (str_count html ''<''),
                       word_count = int (length (str_split html)),
                       is_button_or_link = flag (list_ex (\<lambda>x. py_in x html) [''<a'', ''<button'']),
                       has_id = flag (py_in ''id='' html),
                       has_class = flag (py_in ''class='' html),
                       has_role_attr = flag (py_in ''role='' html),
                       has_tabindex = flag (py_in ''tabindex='' html),
                       is_img_or_svg = flag (list_ex (\<lambda>x. py_in x html) [''<img'', ''<svg'']),
                       has_alt_attr = flag (py_in ''alt='' html),
                       is_alt_empty = flag (alt_content = [] \<and> py_in ''alt='' html),
                       alt_word_count = int (length (str_split alt_content)),
                       alt_is_generic = flag (alt_content \<in> placeholder_set),
                       alt_is_filename = flag (filename_pat alt_content),
                       has_redundant_prefix = flag (redundant_pat html),
                       is_aria_hidden = flag (py_in ''aria-hidden=\"true\"'' html),
                       has_aria_label = flag (py_in ''aria-label='' html),
                       contrast_ratio = cr,
                       font_size = fs,
                       is_aria_related = flag (py_in ''aria'' v_name \<or> py_in ''aria'' supp),
                       aria_density = int (str_count supp ''aria-''),
                       supp_info_len = int (length supp),
                       wcag_level = wcag_level_of wcag \<rparr>))"

section \<open>\<open>AccessibilityFeatureExtractor.extract_html_features\<close>\<close>












section \<open>URL features\<close>

text \<open>
  \<^verbatim>\<open>Series.str.contains(pat, case=False, na=False)\<close> searches \<open>pat\<close> as a regular
  expression, which is the default of pandas, ignoring case. In the three patterns of the
  module the only special character is the dot, which matches every character but a
  newline; the letters match in either case.
\<close>

fun pat_match :: "string \<Rightarrow> string \<Rightarrow> bool" where
  "pat_match [] s = True"
| "pat_match (p # ps) [] = False"
| "pat_match (p # ps) (c # cs) =
     ((if p = CHR ''.'' then c \<noteq> CHR 0x0A else lower_char p = lower_char c) \<and> pat_match ps cs)"

fun re_test :: "(string \<Rightarrow> bool) \<Rightarrow> string \<Rightarrow> bool" where
  "re_test m [] = m []"
| "re_test m (c # cs) = (m (c # cs) \<or> re_test m cs)"

text \<open>One cell of the column; \<open>None\<close> is a missing URL, for which \<^verbatim>\<open>na=False\<close> answers.\<close>

definition str_contains :: "string \<Rightarrow> string option \<Rightarrow> bool" where
  "str_contains pat url = (case url of None \<Rightarrow> False | Some s \<Rightarrow> re_test (pat_match pat) s)"

record url_features =
  url_depth :: "int option"
  url_len :: "int option"
  is_gov :: int
  is_edu :: int
  is_org :: int

definition url_features_of :: "string option \<Rightarrow> url_features" where
  "url_features_of url =
     \<lparr> url_depth = map_option (\<lambda>s. int (str_count s ''/'') - 2) url,
       url_len = map_option (\<lambda>s. int (length s)) url,
       is_gov = flag (str_contains ''.gov'' url),
       is_edu = flag (str_contains ''.edu'' url),
       is_org = flag (str_contains ''.org'' url) \<rparr>"

section \<open>\<open>train_and_save_model\<close>: feature table, score mapping, split and balancing\<close>

text \<open>
  A data frame is the list of its columns, each a label with its cells; pandas keeps the
  order of the columns and allows two columns to carry one label. A missing cell
  (\<^verbatim>\<open>NaN\<close>) is \<open>None\<close>.
\<close>

type_synonym 'v table = "(string \<times> 'v list) list"

definition columns :: "'v table \<Rightarrow> string list" where
  "columns df = map fst df"

text \<open>
  \<^verbatim>\<open>df[names]\<close> with a list of labels: for each label in turn every column that carries
  it; \<^verbatim>\<open>KeyError\<close> when a label is carried by no column.
\<close>

definition getitem :: "'v table \<Rightarrow> string list \<Rightarrow> error + 'v table" where
  "getitem df names =
     (case filter (\<lambda>n. n \<notin> set (columns df)) names of
        [] \<Rightarrow> Inr (concat (map (\<lambda>n. filter (\<lambda>col. fst col = n) df) names))
      | n # _ \<Rightarrow> Inl (KeyError n))"

definition fillna :: "'v \<Rightarrow> 'v option table \<Rightarrow> 'v option table" where
  "fillna v df =
     map (\<lambda>col. (fst col, map (\<lambda>c. case c of None \<Rightarrow> Some v | Some x \<Rightarrow> Some x) (snd col))) df"


definition features :: "string list" where
  "features =
     [''tag_enc'', ''snippet_len'', ''word_count'', ''tag_count'', ''is_button_or_link'',
      ''is_img_or_svg'', ''has_alt_attr'', ''has_aria_label'', ''has_role_attr'',
      ''is_aria_related'', ''contrast_ratio'', ''font_size'',
      ''num_links'', ''num_images'', ''num_buttons'', ''num_inputs'', ''num_lists'',
      ''num_headings'', ''has_form'', ''num_divs'', ''num_spans'',
      ''avg_text_len_per_tag'', ''has_inline_style'', ''has_script_or_style'']"

text \<open>\<^verbatim>\<open>[f for f in features if f in df.columns]\<close>\<close>

definition available_features :: "'v table \<Rightarrow> string list" where
  "available_features df = filter (\<lambda>f. f \<in> set (columns df)) features"

text \<open>\<^verbatim>\<open>X = df[available_features].fillna(0)\<close>\<close>

definition feature_table :: "rat option table \<Rightarrow> error + rat option table" where
  "feature_table df =
     (case getitem df (available_features df) of
        Inl e \<Rightarrow> Inl e
      | Inr X \<Rightarrow> Inr (fillna 0 X))"

definition score_mapping :: "int \<rightharpoonup> int" where
  "score_mapping = [2 \<mapsto> 0, 3 \<mapsto> 1, 4 \<mapsto> 2, 5 \<mapsto> 3]"

definition reverse_mapping :: "int \<rightharpoonup> int" where
  "reverse_mapping = [0 \<mapsto> 2, 1 \<mapsto> 3, 2 \<mapsto> 4, 3 \<mapsto> 5]"

text \<open>
  \<^verbatim>\<open>Series.map(d)\<close> with a dictionary looks every value up in \<open>d\<close>; a value that is no
  key becomes \<^verbatim>\<open>NaN\<close> in the result, and nothing is raised.
\<close>

definition series_map :: "('a \<rightharpoonup> 'b) \<Rightarrow> 'a list \<Rightarrow> error + 'b option list" where
  "series_map d ys = Inr (map d ys)"

record artifacts =
  feature_names :: "string list"
  score_map :: "int \<rightharpoonup> int"
  reverse_map :: "int \<rightharpoonup> int"
  le_violation_classes :: "string list"
  le_tag_classes :: "string list"
  le_domain_classes :: "string list"

text \<open>The vocabularies of the three label encoders, fitted while the table is assembled.\<close>

record encoders =
  violation_classes :: "string list"
  tag_classes :: "string list"
  domain_classes :: "string list"

text \<open>The variables of \<open>train_and_save_model\<close> when it returns.\<close>

record 'm run =
  model :: 'm
  saved :: artifacts
  X_train :: "rat option table"
  X_test :: "rat option table"
  y_train :: "int list"
  y_test :: "int list"
  y_train_mapped :: "int option list"
  y_test_mapped :: "int option list"
  X_train_smote :: "rat option table"
  y_train_smote :: "int option list"

text \<open>
  The function from the choice of the feature columns on. Its arguments are the assembled
  table \<open>df\<close>, the label column \<open>y\<close> (\<^verbatim>\<open>df['violation_score']\<close>), the fitted encoders, and
  the library calls: \<^verbatim>\<open>train_test_split\<close>, \<^verbatim>\<open>SMOTE.fit_resample\<close> and the fit of the
  classifier, each of which may raise. Writing the files and printing the accuracy are
  left out.
\<close>

definition train_and_save_model ::
  "(rat option table \<Rightarrow> int list \<Rightarrow>
      error + (rat option table \<times> rat option table \<times> int list \<times> int list)) \<Rightarrow>
   (rat option table \<Rightarrow> int option list \<Rightarrow> error + (rat option table \<times> int option list)) \<Rightarrow>
   (rat option table \<Rightarrow> int option list \<Rightarrow> error + 'm) \<Rightarrow>
   encoders \<Rightarrow> rat option table \<Rightarrow> int list \<Rightarrow> error + 'm run" where
  "train_and_save_model train_test_split fit_resample fit enc df y =
     (case feature_table df of
        Inl e \<Rightarrow> Inl e
      | Inr X \<Rightarrow>
     (case train_test_split X y of
        Inl e \<Rightarrow> Inl e
      | Inr (Xtr, Xte, ytr, yte) \<Rightarrow>
     (case series_map score_mapping ytr of
        Inl e \<Rightarrow> Inl e
      | Inr ytr_mapped \<Rightarrow>
     (case series_map score_mapping yte of
        Inl e \<Rightarrow> Inl e
      | Inr yte_mapped \<Rightarrow>
     (case fit_resample Xtr ytr_mapped of
        Inl e \<Rightarrow> Inl e
      | Inr (Xs, ys) \<Rightarrow>
     (case fit Xs ys of
        Inl e \<Rightarrow> Inl e
      | Inr clf \<Rightarrow>
          Inr \<lparr> model = clf,
                saved = \<lparr> feature_names = available_features df,
                          score_map = score_mapping,
                          reverse_map = reverse_mapping,
                          le_violation_classes = violation_classes enc,
                          le_tag_classes = tag_classes enc,
                          le_domain_classes = domain_classes enc \<rparr>,
                X_train = Xtr, X_test = Xte, y_train = ytr, y_test = yte,
                y_train_mapped = ytr_mapped, y_test_mapped = yte_mapped,
                X_train_smote = Xs, y_train_smote = ys \<rparr>))))))"

section \<open>Example inputs\<close>

text \<open>A record whose reference is \<^verbatim>\<open>N/A\<close>.\<close>

definition row_na :: row where
  "row_na =
     \<lparr> affected_html_elements = Some ''<img src=\"logo.png\">'',
       supplementary_information = Some [],
       violation_name = Some ''image-alt'',
       wcag_reference = Some ''N/A'' \<rparr>"

text \<open>A record whose metadata has an ellipsis where the contrast ratio should be.\<close>

definition row_dots :: row where
  "row_dots =
     \<lparr> affected_html_elements = Some ''<p style=\"color:#777\">Read more</p>'',
       supplementary_information = Some ''{'contrastRatio': ..., 'fontSize': '12.0pt'}'',
       violation_name = Some ''color-contrast'',
       wcag_reference = Some ''WCAG 2.1 AA'' \<rparr>"

text \<open>A record with an image whose alternative text is empty.\<close>

definition row_img :: row where
  "row_img =
     \<lparr> affected_html_elements = Some ''<img alt=\"\">'',
       supplementary_information = Some [],
       violation_name = Some ''image-alt'',
       wcag_reference = Some ''WCAG 2.1 A'' \<rparr>"

text \<open>A URL of a commercial site whose path has the three words.\<close>

definition url_path :: string where
  "url_path = ''https://example.com/government/education/organic''"




text \<open>A table of three rows with two of the candidate columns, out of the declared order.\<close>

definition df_small :: "rat option table" where
  "df_small =
     [(''web_URL'', [None, None, None]),
      (''word_count'', [Some 4, None, Some 7]),
      (''tag_enc'', [Some 0, Some 1, Some 0])]"

definition enc_small :: encoders where
  "enc_small =
     \<lparr> violation_classes = [''image-alt''], tag_classes = [''a'', ''img''],
       domain_classes = [''news''] \<rparr>"

text \<open>
  Stand-ins for the library calls: a split that keeps the first \<open>k\<close> rows for training, a
  resampler that doubles the training rows, one that leaves them alone, and a classifier
  that remembers the number of rows it was fitted on.
\<close>

definition split_at ::
  "nat \<Rightarrow> rat option table \<Rightarrow> int list \<Rightarrow>
     error + (rat option table \<times> rat option table \<times> int list \<times> int list)" where
  "split_at k X y =
     Inr (map (\<lambda>col. (fst col, take k (snd col))) X,
          map (\<lambda>col. (fst col, drop k (snd col))) X,
          take k y, drop k y)"

definition resample_twice ::
  "rat option table \<Rightarrow> int option list \<Rightarrow> error + (rat option table \<times> int option list)" where
  "resample_twice X y = Inr (map (\<lambda>col. (fst col, snd col @ snd col)) X, y @ y)"

definition no_resample ::
  "rat option table \<Rightarrow> int option list \<Rightarrow> error + (rat option table \<times> int option list)" where
  "no_resample X y = Inr (X, y)"

definition fit_size :: "rat option table \<Rightarrow> int option list \<Rightarrow> error + nat" where
  "fit_size X y = Inr (length y)"

section \<open>Auxiliary facts\<close>

lemmas eval_defs =
  py_str_def str_lower_def lower_char_def str_upper_def upper_char_def float_or_nan_def
  cr_pat_def fs_pat_def startswith_def isspace_def is_numch_def isdigit_def py_float_def
  tag_of_def alt_content_of_def tag_pat_def alt_pat_def is_quote_def is_alnum_def
  str_strip_def str_split_def str_count_def flag_def filename_pat_def redundant_pat_def
  placeholder_set_def endswith_def wcag_level_of_def digits_val_def digit_val_def

lemma startswith_iff: "startswith s p \<longleftrightarrow> (\<exists>q. s = p @ q)"
  unfolding startswith_def
  by (metis append_eq_conv_conj append_take_drop_id)

text \<open>The substring test finds exactly the strings that occur between a front and a rest.\<close>

lemma py_in_iff: "py_in sub s \<longleftrightarrow> (\<exists>p q. s = p @ sub @ q)"
proof (induction s)
  case Nil
  then show ?case by auto
next
  case (Cons c cs)
  have "(\<exists>p q. c # cs = p @ sub @ q) \<longleftrightarrow> (\<exists>q. c # cs = sub @ q) \<or> (\<exists>p q. cs = p @ sub @ q)"
  proof
    assume "\<exists>p q. c # cs = p @ sub @ q"
    then obtain p q where e: "c # cs = p @ sub @ q" by blast
    show "(\<exists>q. c # cs = sub @ q) \<or> (\<exists>p q. cs = p @ sub @ q)"
    proof (cases p)
      case Nil
      with e show ?thesis by auto
    next
      case (Cons a p')
      with e have "cs = p' @ sub @ q" by simp
      then show ?thesis by blast
    qed
  next
    assume "(\<exists>q. c # cs = sub @ q) \<or> (\<exists>p q. cs = p @ sub @ q)"
    then show "\<exists>p q. c # cs = p @ sub @ q"
    proof
      assume "\<exists>q. c # cs = sub @ q"
      then obtain q where "c # cs = [] @ sub @ q" by auto
      then show ?thesis by blast
    next
      assume "\<exists>p q. cs = p @ sub @ q"
      then obtain p q where "c # cs = (c # p) @ sub @ q" by auto
      then show ?thesis by blast
    qed
  qed
  with Cons show ?case by (simp add: startswith_iff)
qed

text \<open>The fields of a returned series, read off the definition.\<close>

lemma extract_everything_fields:
  assumes "extract_everything r = Inr f"
  shows "wcag_level f = wcag_level_of (str_upper (py_str (wcag_reference r)))"
    and "snippet_word_count f = int (length (str_split (str_lower (py_str (affected_html_elements r)))))"
    and "word_count f = int (length (str_split (str_lower (py_str (affected_html_elements r)))))"
    and "has_alt_attr f = flag (py_in ''alt='' (str_lower (py_str (affected_html_elements r))))"
    and "is_alt_empty f =
           flag (alt_content_of (str_lower (py_str (affected_html_elements r))) = []
                 \<and> py_in ''alt='' (str_lower (py_str (affected_html_elements r))))"
    and "alt_word_count f =
           int (length (str_split (alt_content_of (str_lower (py_str (affected_html_elements r))))))"
  using assms
  by (auto simp: extract_everything_def Let_def split: sum.splits)

lemma row_na_returns: "\<exists>f. extract_everything row_na = Inr f"
  by (simp add: row_na_def extract_everything_def Let_def eval_defs)

lemma row_img_returns: "\<exists>f. extract_everything row_img = Inr f"
  by (simp add: row_img_def extract_everything_def Let_def eval_defs)









text \<open>The selection of the available columns never raises.\<close>

lemma getitem_available:
  "getitem df (available_features df)
     = Inr (concat (map (\<lambda>n. filter (\<lambda>col. fst col = n) df) (available_features df)))"
proof -
  have "filter (\<lambda>n. n \<notin> set (columns df)) (available_features df) = []"
    by (simp add: available_features_def filter_empty_conv)
  then show ?thesis by (simp add: getitem_def)
qed

lemma feature_table_Inr:
  "feature_table df
     = Inr (fillna 0 (concat (map (\<lambda>n. filter (\<lambda>col. fst col = n) df) (available_features df))))"
  by (simp add: feature_table_def getitem_available)



lemma run_steps:
  assumes "train_and_save_model split smote fit enc df y = Inr st"
  shows "\<exists>X. feature_table df = Inr X
          \<and> split X y = Inr (X_train st, X_test st, y_train st, y_test st)"
    and "series_map score_mapping (y_train st) = Inr (y_train_mapped st)"
    and "series_map score_mapping (y_test st) = Inr (y_test_mapped st)"
    and "smote (X_train st) (y_train_mapped st) = Inr (X_train_smote st, y_train_smote st)"
  using assms
  by (auto simp: train_and_save_model_def split: sum.splits prod.splits)

lemma feature_table_small:
  "feature_table df_small
     = Inr [(''tag_enc'', [Some 0, Some 1, Some 0]), (''word_count'', [Some 4, Some 0, Some 7])]"
  by (simp add: df_small_def feature_table_Inr available_features_def features_def columns_def
      fillna_def)

lemma run_small_twice:
  "\<exists>st. train_and_save_model (split_at 2) resample_twice fit_size enc_small df_small [2, 5, 3]
          = Inr st"
  by (simp add: train_and_save_model_def feature_table_small split_at_def series_map_def
      resample_twice_def fit_size_def)

lemma run_small_plain:
  "\<exists>st. train_and_save_model (split_at 2) no_resample fit_size enc_small df_small [2, 5, 3]
          = Inr st"
  by (simp add: train_and_save_model_def feature_table_small split_at_def series_map_def
      no_resample_def fit_size_def)

section \<open>Score mapping\<close>

text \<open>
  Claim C1. The score mapping is the dictionary \<open>{2: 0, 3: 1, 4: 2, 5: 3}\<close> and the
  reverse mapping is \<open>{0: 2, 1: 3, 2: 4, 3: 5}\<close>; looking a label of \<open>{2, 3, 4, 5}\<close> up in
  the first and the result in the second gives the label back, and looking a class index
  of \<open>{0, 1, 2, 3}\<close> up in the second and the result in the first gives the index back.
\<close>

theorem score_mapping_roundtrip:
  "dom score_mapping = {2, 3, 4, 5} \<and> dom reverse_mapping = {0, 1, 2, 3}
   \<and> score_mapping 2 = Some 0 \<and> score_mapping 3 = Some 1
   \<and> score_mapping 4 = Some 2 \<and> score_mapping 5 = Some 3
   \<and> reverse_mapping 0 = Some 2 \<and> reverse_mapping 1 = Some 3
   \<and> reverse_mapping 2 = Some 4 \<and> reverse_mapping 3 = Some 5
   \<and> (\<forall>x \<in> {2, 3, 4, 5}. Option.bind (score_mapping x) reverse_mapping = Some x)
   \<and> (\<forall>c \<in> {0, 1, 2, 3}. Option.bind (reverse_mapping c) score_mapping = Some c)"
  by (auto simp: score_mapping_def reverse_mapping_def dom_def)

theorem score_mapping_roundtrip_witness:
  "Option.bind (score_mapping 4) reverse_mapping = Some 4
   \<and> Option.bind (reverse_mapping 1) score_mapping = Some 1"
  using score_mapping_roundtrip by simp

text \<open>
  Mapping the series that holds the one label 7 returns a series, with a missing value
  in that row.
\<close>

theorem series_map_outside_domain: "series_map score_mapping [7] = Inr [None]"
  by (simp add: series_map_def score_mapping_def)

text \<open>
  Claim C2, as the code has it. Mapping the labels through the score mapping never
  raises: a label of \<open>{2, 3, 4, 5}\<close> becomes its class index, which is the label minus 2,
  and every other label becomes a missing value in its row.
\<close>

theorem series_map_score_mapping:
  "series_map score_mapping ys
     = Inr (map (\<lambda>y. if y \<in> {2, 3, 4, 5} then Some (y - 2) else None) ys)"
  by (auto simp: series_map_def score_mapping_def)

theorem series_map_score_mapping_witness:
  "series_map score_mapping [2, 7, 5] = Inr [Some 0, None, Some 3]"
  using series_map_score_mapping [of "[2, 7, 5]"] by simp

section \<open>Markup features\<close>

text \<open>For the reference \<^verbatim>\<open>N/A\<close> the level is 1: its text contains the letter A.\<close>

theorem wcag_level_na_counterexample:
  "map_sum id wcag_level (extract_everything row_na) = Inr 1
   \<and> map_sum id wcag_level (extract_everything row_na) \<noteq> Inr 0"
  by (simp add: row_na_def extract_everything_def Let_def eval_defs)

text \<open>
  Claim C3, as the code has it. The level of a returned series is computed from the
  upper-cased reference: 3 if it contains \<^verbatim>\<open>AAA\<close>, else 2 if it contains \<^verbatim>\<open>AA\<close>, else 1
  if it contains \<^verbatim>\<open>A\<close>, else 0. It is 3 for \<^verbatim>\<open>WCAG 2.1 AAA\<close>, 2 for \<^verbatim>\<open>WCAG 2.1 AA\<close>, 1
  for \<^verbatim>\<open>WCAG 2.1 A\<close>, and 1 for \<^verbatim>\<open>N/A\<close> as well.
\<close>

theorem wcag_level_rule:
  "(extract_everything r = Inr f \<longrightarrow>
      wcag_level f = wcag_level_of (str_upper (py_str (wcag_reference r))))
   \<and> wcag_level_of W =
       (if (\<exists>p q. W = p @ ''AAA'' @ q) then 3
        else if (\<exists>p q. W = p @ ''AA'' @ q) then 2
        else if (\<exists>p q. W = p @ ''A'' @ q) then 1
        else 0)
   \<and> wcag_level_of (str_upper ''WCAG 2.1 AAA'') = 3
   \<and> wcag_level_of (str_upper ''WCAG 2.1 AA'') = 2
   \<and> wcag_level_of (str_upper ''WCAG 2.1 A'') = 1
   \<and> wcag_level_of (str_upper ''N/A'') = 1"
proof -
  have a: "extract_everything r = Inr f \<longrightarrow>
      wcag_level f = wcag_level_of (str_upper (py_str (wcag_reference r)))"
    by (simp add: extract_everything_fields(1))
  have b: "wcag_level_of W =
       (if (\<exists>p q. W = p @ ''AAA'' @ q) then 3
        else if (\<exists>p q. W = p @ ''AA'' @ q) then 2
        else if (\<exists>p q. W = p @ ''A'' @ q) then 1
        else 0)"
    unfolding wcag_level_of_def py_in_iff by (rule refl)
  have c: "wcag_level_of (str_upper ''WCAG 2.1 AAA'') = 3"
    by (simp add: eval_defs)
  have d: "wcag_level_of (str_upper ''WCAG 2.1 AA'') = 2"
    by (simp add: eval_defs)
  have e: "wcag_level_of (str_upper ''WCAG 2.1 A'') = 1"
    by (simp add: eval_defs)
  have g: "wcag_level_of (str_upper ''N/A'') = 1"
    by (simp add: eval_defs)
  from a b c d e g show ?thesis by blast
qed

theorem wcag_level_rule_witness:
  "map_sum id wcag_level (extract_everything row_na) = Inr (wcag_level_of ''N/A'')"
proof -
  from row_na_returns obtain f where f: "extract_everything row_na = Inr f" by blast
  from wcag_level_rule [of row_na f] f
  have "wcag_level f = wcag_level_of (str_upper (py_str (wcag_reference row_na)))" by blast
  then have "wcag_level f = wcag_level_of ''N/A''"
    by (simp add: row_na_def py_str_def str_upper_def upper_char_def)
  with f show ?thesis by simp
qed

text \<open>
  Claim C4. The extractor returns a series for every record of four strings. It does
  not: the pattern of the contrast ratio captures any run of digits and dots, and the
  conversion of the run \<^verbatim>\<open>...\<close> to a float raises.
\<close>

theorem extract_everything_raises:
  "extract_everything row_dots = Inl (ValueError ''...'')"
  by (simp add: row_dots_def extract_everything_def Let_def eval_defs)



text \<open>
  Claim C10. In a returned series \<open>snippet_word_count\<close> and \<open>word_count\<close> are equal: both
  are the number of whitespace-delimited words of the lower-cased markup.
\<close>

theorem word_counts_equal:
  "extract_everything r = Inr f \<Longrightarrow>
     snippet_word_count f = word_count f
     \<and> word_count f = int (length (str_split (str_lower (py_str (affected_html_elements r)))))"
  by (simp add: extract_everything_fields)

theorem word_counts_equal_witness:
  "map_sum id (\<lambda>f. (snippet_word_count f, word_count f)) (extract_everything row_img)
     = Inr (2, 2)"
proof -
  from row_img_returns obtain f where f: "extract_everything row_img = Inr f" by blast
  have "str_split (str_lower (py_str (affected_html_elements row_img)))
          = [''<img'', ''alt=\"\">'']"
    by (simp add: row_img_def eval_defs)
  with word_counts_equal [OF f] have "snippet_word_count f = 2 \<and> word_count f = 2" by simp
  with f show ?thesis by simp
qed

section \<open>Structural features\<close>



section \<open>URL flags\<close>

text \<open>
  Claim C8. The three flags are 1 exactly for the URLs that contain the literal text
  \<^verbatim>\<open>.gov\<close>, \<^verbatim>\<open>.edu\<close>, \<^verbatim>\<open>.org\<close>. They are not: the dot of the pattern matches any
  character, so a URL whose path has the words government, education and organic after a
  slash sets all three flags, and contains none of the three texts.
\<close>

theorem url_flags_regex_dot:
  "is_gov (url_features_of (Some url_path)) = 1 \<and> \<not> py_in ''.gov'' (str_lower url_path)
   \<and> is_edu (url_features_of (Some url_path)) = 1 \<and> \<not> py_in ''.edu'' (str_lower url_path)
   \<and> is_org (url_features_of (Some url_path)) = 1 \<and> \<not> py_in ''.org'' (str_lower url_path)"
  by code_simp

section \<open>Feature table and partitions\<close>




text \<open>
  Claim C9. When the function returns, its test rows and test labels are the ones the
  split produced, the resampler was applied to the training rows and the mapped training
  labels, and the test partition is the same whatever resampler and classifier are used.
\<close>

theorem test_partition_unchanged:
  "train_and_save_model split smote fit enc df y = Inr st \<Longrightarrow>
     (\<exists>X. feature_table df = Inr X
          \<and> split X y = Inr (X_train st, X_test st, y_train st, y_test st))
     \<and> smote (X_train st) (y_train_mapped st) = Inr (X_train_smote st, y_train_smote st)
     \<and> (\<forall>smote' fit' st'.
           train_and_save_model split smote' fit' enc df y = Inr st' \<longrightarrow>
             X_test st' = X_test st \<and> y_test st' = y_test st)"
proof -
  assume a: "train_and_save_model split smote fit enc df y = Inr st"
  have 3: "X_test st' = X_test st \<and> y_test st' = y_test st"
    if b: "train_and_save_model split smote' fit' enc df y = Inr st'" for smote' fit' st'
    using run_steps(1) [OF a] run_steps(1) [OF b] by auto
  from run_steps(1) [OF a] run_steps(4) [OF a] 3 show ?thesis by blast
qed

theorem test_partition_unchanged_witness:
  "map_sum id (\<lambda>st. (X_test st, y_test st))
     (train_and_save_model (split_at 2) resample_twice fit_size enc_small df_small [2, 5, 3])
     = Inr ([(''tag_enc'', [Some 0]), (''word_count'', [Some 7])], [3])
   \<and> map_sum id (\<lambda>st. (X_test st, y_test st))
     (train_and_save_model (split_at 2) no_resample fit_size enc_small df_small [2, 5, 3])
     = Inr ([(''tag_enc'', [Some 0]), (''word_count'', [Some 7])], [3])"
proof -
  from run_small_twice obtain st where st:
    "train_and_save_model (split_at 2) resample_twice fit_size enc_small df_small [2, 5, 3]
       = Inr st"
    by blast
  from run_small_plain obtain st' where st':
    "train_and_save_model (split_at 2) no_resample fit_size enc_small df_small [2, 5, 3]
       = Inr st'"
    by blast
  note t = test_partition_unchanged [OF st]
  from t obtain X where X: "feature_table df_small = Inr X"
    and s: "split_at 2 X [2, 5, 3] = Inr (X_train st, X_test st, y_train st, y_test st)"
    by blast
  from X have "X = [(''tag_enc'', [Some 0, Some 1, Some 0]),
                    (''word_count'', [Some 4, Some 0, Some 7])]"
    by (simp add: feature_table_small)
  with s have v: "X_test st = [(''tag_enc'', [Some 0]), (''word_count'', [Some 7])]"
    "y_test st = [3]"
    by (auto simp: split_at_def)
  from t have "train_and_save_model (split_at 2) no_resample fit_size enc_small df_small [2, 5, 3]
                 = Inr st'
     \<longrightarrow> X_test st' = X_test st \<and> y_test st' = y_test st"
    by (elim conjE allE)
  with st' have e: "X_test st' = X_test st" "y_test st' = y_test st" by simp_all
  show ?thesis by (simp add: st st' v e)
qed

end
